theory Spec2Isabelle
  imports Main "HOL-Library.FSet"
begin

section \<open>Python values used by the converters and the calendar builder\<close>

text \<open>
  Exceptions of the Python source are values: a function that can raise returns
  \<open>py_error + 'a\<close>, with \<open>Inl\<close> for the exception.
\<close>

datatype py_error = ValueError | IndexError | KeyError

text \<open>\<open>any(xs)\<close> over a list of booleans.\<close>

fun py_any :: "bool list \<Rightarrow> bool" where
  "py_any [] = False"
| "py_any (c # cs) = (if c then True else py_any cs)"

section \<open>Calendar event builder: the eligibility predicate\<close>

text \<open>
  The statuses of a cycle task. The source compares \<open>task.status\<close> with the class
  constants \<open>DEPRECATED\<close>, \<open>VERIFIED\<close> and \<open>FINISHED\<close>; the remaining workflow statuses
  are listed so that a status outside these three exists.
\<close>

datatype task_status = Assigned | InProgress | Finished | Declined | Deprecated | Verified

text \<open>
  A \<open>CycleTaskGroupObjectTask\<close> as the builder reads it. The properties
  \<open>is_verification_needed\<close>, \<open>is_in_history\<close>, \<open>is_overdue\<close> and
  \<open>workflow.workflow_archived\<close> are attributes computed by the model class; the builder
  only reads their boolean value. \<open>acl\<close> lists the (role name, person id) pairs of the
  task's access control list, which \<open>get_person_ids_for_rolename\<close> filters.
\<close>

record task =
  task_id :: nat
  end_date :: nat
  status :: task_status
  task_title :: string
  is_verification_needed :: bool
  is_in_history :: bool
  is_overdue :: bool
  workflow_archived :: bool
  acl :: "(string \<times> nat) list"

definition should_create_event_for :: "task \<Rightarrow> bool" where
  "should_create_event_for t =
     (let conditions =
        [ status t \<in> set [Deprecated, Verified],
          status t = Finished \<and> \<not> is_verification_needed t,
          is_in_history t,
          is_overdue t,
          workflow_archived t ]
      in \<not> py_any conditions)"

section \<open>Calendar event builder: events, relationships and the two mapping tables\<close>

record calendar_event =
  event_id :: nat
  due_date :: nat
  attendee_id :: nat
  event_title :: string
  modified_by_id :: nat

text \<open>A row of the polymorphic \<open>Relationship\<close> table.\<close>

record relationship =
  source_type :: string
  source_id :: nat
  destination_type :: string
  destination_id :: nat

text \<open>
  The builder together with the database session it writes to. \<open>task_mappings\<close> and
  \<open>event_mappings\<close> are \<open>defaultdict(set)\<close>: a key is present or not, and reading a
  missing key gives the empty set. \<open>db_events\<close> and \<open>db_relationships\<close> are the rows the
  session sees (an added or deleted row is visible to the next query of the same session),
  \<open>db_next_id\<close> is the auto-increment counter that gives a flushed event its id.
\<close>

record builder =
  task_mappings :: "nat \<Rightarrow> nat fset option"
  event_mappings :: "nat \<Rightarrow> nat fset option"
  title_prefix :: string
  db_events :: "calendar_event list"
  db_relationships :: "relationship list"
  db_next_id :: nat

definition TASK_TITLE_TEMPLATE :: "string \<Rightarrow> string" where
  "TASK_TITLE_TEMPLATE prefix = prefix @ ''Your tasks are due today''"

text \<open>
  \<open>__init__\<close>: empty mapping tables; the title prefix comes from
  \<open>settings.NOTIFICATION_PREFIX\<close> when that is set (a non-empty string). The rows of the
  session are those of the database at that moment.
\<close>

definition init_builder ::
  "string \<Rightarrow> calendar_event list \<Rightarrow> relationship list \<Rightarrow> nat \<Rightarrow> builder" where
  "init_builder notification_prefix evs rels next_id =
     \<lparr>task_mappings = Map.empty,
      event_mappings = Map.empty,
      title_prefix = (if notification_prefix \<noteq> [] then ''['' @ notification_prefix @ ''] '' else []),
      db_events = evs,
      db_relationships = rels,
      db_next_id = next_id\<rparr>"

text \<open>\<open>d[k]\<close>, \<open>d[k].add(v)\<close> and \<open>d[k].discard(v)\<close> on a \<open>defaultdict(set)\<close>.\<close>

definition dd_get :: "(nat \<Rightarrow> nat fset option) \<Rightarrow> nat \<Rightarrow> nat fset" where
  "dd_get d k = (case d k of None \<Rightarrow> {||} | Some s \<Rightarrow> s)"

definition dd_add :: "(nat \<Rightarrow> nat fset option) \<Rightarrow> nat \<Rightarrow> nat \<Rightarrow> (nat \<Rightarrow> nat fset option)" where
  "dd_add d k v = d(k \<mapsto> finsert v (dd_get d k))"

definition dd_discard :: "(nat \<Rightarrow> nat fset option) \<Rightarrow> nat \<Rightarrow> nat \<Rightarrow> (nat \<Rightarrow> nat fset option)" where
  "dd_discard d k v = d(k \<mapsto> dd_get d k |-| {|v|})"

text \<open>
  Modelled from the spec: \<open>ggrc.gcalendar.utils\<close> is not among the sources. Its two
  queries are read from their call sites and names. \<open>get_event_by_date_and_attendee\<close>
  returns the first calendar event of the session with the given attendee and due date,
  or nothing. \<open>get_relationship\<close> returns the first relationship row that joins the
  left and the right object, in either direction (the builder stores the task as source
  and asks with the event on the left), or nothing.
\<close>

definition get_event_by_date_and_attendee :: "builder \<Rightarrow> nat \<Rightarrow> nat \<Rightarrow> calendar_event option" where
  "get_event_by_date_and_attendee b attendee due =
     find (\<lambda>e. attendee_id e = attendee \<and> due_date e = due) (db_events b)"

definition relationship_matches :: "nat \<Rightarrow> string \<Rightarrow> nat \<Rightarrow> string \<Rightarrow> relationship \<Rightarrow> bool" where
  "relationship_matches left_id left_model_name right_id right_model_name r =
     ((source_id r = left_id \<and> source_type r = left_model_name
        \<and> destination_id r = right_id \<and> destination_type r = right_model_name)
      \<or> (source_id r = right_id \<and> source_type r = right_model_name
        \<and> destination_id r = left_id \<and> destination_type r = left_model_name))"

definition get_relationship :: "builder \<Rightarrow> nat \<Rightarrow> string \<Rightarrow> nat \<Rightarrow> string \<Rightarrow> relationship option" where
  "get_relationship b left_id left_model_name right_id right_model_name =
     find (relationship_matches left_id left_model_name right_id right_model_name)
       (db_relationships b)"

text \<open>\<open>all_models.Relationship(source=task, destination=event)\<close>.\<close>

definition Relationship :: "task \<Rightarrow> calendar_event \<Rightarrow> relationship" where
  "Relationship t e =
     \<lparr>source_type = ''CycleTaskGroupObjectTask'', source_id = task_id t,
      destination_type = ''CalendarEvent'', destination_id = event_id e\<rparr>"

definition delete_event_relationship :: "builder \<Rightarrow> nat \<Rightarrow> nat \<Rightarrow> builder" where
  "delete_event_relationship b ev_id t_id =
     (case get_relationship b ev_id ''CalendarEvent'' t_id ''CycleTaskGroupObjectTask'' of
        Some r \<Rightarrow>
          b\<lparr>db_relationships := remove1 r (db_relationships b),
            task_mappings := dd_discard (task_mappings b) t_id ev_id,
            event_mappings := dd_discard (event_mappings b) ev_id t_id\<rparr>
      | None \<Rightarrow> b)"

definition create_event_with_relationship :: "builder \<Rightarrow> task \<Rightarrow> nat \<Rightarrow> builder \<times> calendar_event" where
  "create_event_with_relationship b t person_id =
     (let event = \<lparr>event_id = db_next_id b,
                   due_date = end_date t,
                   attendee_id = person_id,
                   event_title = TASK_TITLE_TEMPLATE (title_prefix b),
                   modified_by_id = person_id\<rparr>
      in (b\<lparr>db_events := db_events b @ [event],
            db_relationships := db_relationships b @ [Relationship t event],
            db_next_id := Suc (db_next_id b),
            task_mappings := dd_add (task_mappings b) (task_id t) (event_id event),
            event_mappings := dd_add (event_mappings b) (event_id event) (task_id t)\<rparr>,
          event))"

definition create_event_relationship :: "builder \<Rightarrow> task \<Rightarrow> calendar_event \<Rightarrow> builder" where
  "create_event_relationship b t event =
     (case get_relationship b (event_id event) ''CalendarEvent''
             (task_id t) ''CycleTaskGroupObjectTask'' of
        None \<Rightarrow>
          b\<lparr>db_relationships := db_relationships b @ [Relationship t event],
            task_mappings := dd_add (task_mappings b) (task_id t) (event_id event),
            event_mappings := dd_add (event_mappings b) (event_id event) (task_id t)\<rparr>
      | Some r \<Rightarrow> b)"

text \<open>
  \<open>task.get_person_ids_for_rolename(role)\<close>: the person ids of the access control
  entries of the task with that role name.
\<close>

definition get_person_ids_for_rolename :: "task \<Rightarrow> string \<Rightarrow> nat list" where
  "get_person_ids_for_rolename t role = map snd (filter (\<lambda>(r, p). r = role) (acl t))"

definition roles_to_notify :: "string list" where
  "roles_to_notify = [''Task Assignees'', ''Task Secondary Assignees'']"

definition get_task_persons_ids_to_notify :: "task \<Rightarrow> nat fset" where
  "get_task_persons_ids_to_notify t =
     fset_of_list (concat (map (get_person_ids_for_rolename t) roles_to_notify))"

text \<open>
  The loop over the persons to notify, with the local set \<open>events_ids\<close> threaded
  through. A Python set is iterated in an order the language does not fix; the model
  iterates in ascending order.
\<close>

fun notify_persons :: "task \<Rightarrow> nat list \<Rightarrow> builder \<times> nat fset \<Rightarrow> builder \<times> nat fset" where
  "notify_persons t [] (b, events_ids) = (b, events_ids)"
| "notify_persons t (person_id # rest) (b, events_ids) =
     (case get_event_by_date_and_attendee b person_id (end_date t) of
        None \<Rightarrow>
          notify_persons t rest (fst (create_event_with_relationship b t person_id), events_ids)
      | Some event \<Rightarrow>
          notify_persons t rest
            (create_event_relationship b t event, events_ids |-| {|event_id event|}))"

fun delete_event_relationships :: "nat \<Rightarrow> nat list \<Rightarrow> builder \<Rightarrow> builder" where
  "delete_event_relationships t_id [] b = b"
| "delete_event_relationships t_id (ev_id # rest) b =
     delete_event_relationships t_id rest (delete_event_relationship b ev_id t_id)"

definition initial_events_ids :: "builder \<Rightarrow> task \<Rightarrow> nat fset" where
  "initial_events_ids b t =
     (case task_mappings b (task_id t) of None \<Rightarrow> {||} | Some s \<Rightarrow> s)"

definition generate_events_for_task :: "builder \<Rightarrow> task \<Rightarrow> builder" where
  "generate_events_for_task b t =
     (let events_ids = initial_events_ids b t;
          (b1, events_ids1) =
            (if should_create_event_for t
             then notify_persons t (sorted_list_of_fset (get_task_persons_ids_to_notify t))
                    (b, events_ids)
             else (b, events_ids))
      in delete_event_relationships (task_id t) (sorted_list_of_fset events_ids1) b1)"

text \<open>The three operations on the mapping tables, as a sequence to run.\<close>

datatype builder_op =
    CreateEventWithRelationship task nat
  | CreateEventRelationship task calendar_event
  | DeleteEventRelationship nat nat

fun apply_builder_op :: "builder \<Rightarrow> builder_op \<Rightarrow> builder" where
  "apply_builder_op b (CreateEventWithRelationship t person_id) =
     fst (create_event_with_relationship b t person_id)"
| "apply_builder_op b (CreateEventRelationship t event) = create_event_relationship b t event"
| "apply_builder_op b (DeleteEventRelationship ev_id t_id) = delete_event_relationship b ev_id t_id"

fun run_builder_ops :: "builder \<Rightarrow> builder_op list \<Rightarrow> builder" where
  "run_builder_ops b [] = b"
| "run_builder_ops b (operation # rest) = run_builder_ops (apply_builder_op b operation) rest"

text \<open>Membership in both tables agrees for every task id and event id.\<close>

definition mappings_inverse :: "builder \<Rightarrow> bool" where
  "mappings_inverse b \<longleftrightarrow>
     (\<forall>t_id ev_id. ev_id |\<in>| dd_get (task_mappings b) t_id
                  \<longleftrightarrow> t_id |\<in>| dd_get (event_mappings b) ev_id)"



section \<open>Export converter: selecting the exportable queries\<close>

text \<open>
  \<open>enumerate(ids_by_type)\<close> filtered by \<open>index in exportable_queries\<close>: the loop of
  the list comprehension, with the running index written out. The indexes of
  \<open>exportable_queries\<close> are Python integers.
\<close>

fun filter_enumerated :: "int list \<Rightarrow> nat \<Rightarrow> 'q list \<Rightarrow> 'q list" where
  "filter_enumerated eq index [] = []"
| "filter_enumerated eq index (object_query # rest) =
     (if int index \<in> set eq
      then object_query # filter_enumerated eq (Suc index) rest
      else filter_enumerated eq (Suc index) rest)"

definition get_exportable_queries :: "'q list \<Rightarrow> int list \<Rightarrow> 'q list" where
  "get_exportable_queries ids_by_type exportable_queries =
     (if exportable_queries \<noteq> []
      then filter_enumerated exportable_queries 0 ids_by_type
      else ids_by_type)"

section \<open>Export converter: building the CSV\<close>

text \<open>\<open>max(xs)\<close> over a list of integers: \<open>ValueError\<close> on the empty list.\<close>

fun py_max :: "nat list \<Rightarrow> py_error + nat" where
  "py_max [] = Inl ValueError"
| "py_max (x # xs) = Inr (fold max xs x)"

text \<open>
  An export block converter as \<open>build_csv_from_row_data\<close> reads it: its \<open>name\<close> and
  \<open>block_width\<close> attributes, the two-dimensional list \<open>generate_csv_header()\<close> returns
  and the lines \<open>generate_row_data()\<close> yields. The classes that compute them
  (\<open>base_block\<close>, \<open>snapshot_block\<close>) are not among the sources.
\<close>

record block_converter =
  name :: string
  block_width :: nat
  csv_header :: "string list list"
  row_data :: "string list list"

text \<open>
  Modelled from the spec: \<open>import_helper.CsvStringBuilder\<close> is not among the sources.
  It is created with the table width, \<open>append_line\<close> pads a line with empty cells up to
  that width and writes it as one CSV row, and \<open>get_csv_string\<close> returns what was
  written so far. The text of one row is the work of the \<open>csv\<close> module and is the
  parameter \<open>writerow\<close>.
\<close>

record csv_string_builder =
  table_width :: nat
  csv_string :: string

definition CsvStringBuilder :: "nat \<Rightarrow> csv_string_builder" where
  "CsvStringBuilder width = \<lparr>table_width = width, csv_string = []\<rparr>"

definition pad_line :: "nat \<Rightarrow> string list \<Rightarrow> string list" where
  "pad_line width line = line @ replicate (width - length line) []"

definition append_line ::
  "(string list \<Rightarrow> string) \<Rightarrow> csv_string_builder \<Rightarrow> string list \<Rightarrow> csv_string_builder" where
  "append_line writerow sb line =
     sb\<lparr>csv_string := csv_string sb @ writerow (pad_line (table_width sb) line)\<rparr>"

definition get_csv_string :: "csv_string_builder \<Rightarrow> string" where
  "get_csv_string sb = csv_string sb"

text \<open>
  The loop over the block converters. \<open>csv_header[0]\<close> and \<open>csv_header[1]\<close> raise
  \<open>IndexError\<close> on a header of fewer than two lines.
\<close>

fun export_blocks ::
  "(string list \<Rightarrow> string) \<Rightarrow> csv_string_builder \<Rightarrow> block_converter list
   \<Rightarrow> py_error + csv_string_builder" where
  "export_blocks writerow sb [] = Inr sb"
| "export_blocks writerow sb (bc # rest) =
     (case csv_header bc of
        h0 # h1 # others \<Rightarrow>
          (let sb1 = append_line writerow sb (''Object type'' # h0);
               sb2 = append_line writerow sb1 (name bc # h1);
               sb3 = fold (\<lambda>line s. append_line writerow s ([] # line)) (row_data bc) sb2;
               sb4 = append_line writerow sb3 [];
               sb5 = append_line writerow sb4 []
           in export_blocks writerow sb5 rest)
      | _ \<Rightarrow> Inl IndexError)"

definition build_csv_from_row_data ::
  "(string list \<Rightarrow> string) \<Rightarrow> block_converter list \<Rightarrow> py_error + string" where
  "build_csv_from_row_data writerow block_converters =
     (case py_max (map block_width block_converters) of
        Inl e \<Rightarrow> Inl e
      | Inr widest \<Rightarrow>
          (let width = widest + 1
           in case export_blocks writerow (CsvStringBuilder width) block_converters of
                Inl e \<Rightarrow> Inl e
              | Inr sb \<Rightarrow> Inr (get_csv_string sb)))"

text \<open>
  The lines of one block as the export format describes them: the header line that
  begins with "Object type", the line that begins with the name of the block, one line
  per data row with an empty first cell, and two empty lines, each padded to the table
  width.
\<close>

definition expected_block_lines :: "nat \<Rightarrow> block_converter \<Rightarrow> string list list" where
  "expected_block_lines width bc =
     [pad_line width (''Object type'' # csv_header bc ! 0),
      pad_line width (name bc # csv_header bc ! 1)]
     @ map (\<lambda>line. pad_line width ([] # line)) (row_data bc)
     @ [replicate width [], replicate width []]"

text \<open>
  One object query of \<open>ids_by_type\<close>: a dictionary with the key \<open>object_name\<close> and the
  optional keys \<open>ids\<close> and \<open>fields\<close> (\<open>"all"\<close> or a list of field names).
\<close>

datatype fields_spec = AllFields | FieldList "string list"

record object_query =
  object_name :: "string option"
  query_ids :: "nat list option"
  query_fields :: "fields_spec option"

text \<open>
  The exportables: a dictionary from the lower-case name to the model class. A model
  class is represented by its \<open>__name__\<close>.
\<close>

type_synonym exportables = "(string \<times> string) list"

text \<open>
  \<open>ExportConverter.initialize_block_converters\<close>. The two block converter classes are
  parameters. \<open>object_data["object_name"]\<close> and \<open>object_map[class_name]\<close> raise
  \<open>KeyError\<close> on a missing key.
\<close>

fun export_initialize_loop ::
  "(string \<Rightarrow> fields_spec \<Rightarrow> nat list \<Rightarrow> string \<Rightarrow> block_converter)
   \<Rightarrow> (nat list \<Rightarrow> fields_spec \<Rightarrow> block_converter)
   \<Rightarrow> (string \<times> string) list \<Rightarrow> block_converter list \<Rightarrow> object_query list
   \<Rightarrow> py_error + block_converter list" where
  "export_initialize_loop ExportBlockConverter SnapshotBlockConverter object_map bcs [] = Inr bcs"
| "export_initialize_loop ExportBlockConverter SnapshotBlockConverter object_map bcs
     (object_data # rest) =
     (case object_name object_data of
        None \<Rightarrow> Inl KeyError
      | Some class_name \<Rightarrow>
          (case map_of object_map class_name of
             None \<Rightarrow> Inl KeyError
           | Some object_class \<Rightarrow>
               (let object_ids = (case query_ids object_data of None \<Rightarrow> [] | Some l \<Rightarrow> l);
                    flds = (case query_fields object_data of None \<Rightarrow> AllFields | Some f \<Rightarrow> f)
                in if class_name = ''Snapshot''
                   then export_initialize_loop ExportBlockConverter SnapshotBlockConverter object_map
                          (bcs @ [SnapshotBlockConverter object_ids flds]) rest
                   else export_initialize_loop ExportBlockConverter SnapshotBlockConverter object_map
                          (bcs @ [ExportBlockConverter object_class flds object_ids class_name])
                          rest)))"

definition export_initialize_block_converters ::
  "(string \<Rightarrow> fields_spec \<Rightarrow> nat list \<Rightarrow> string \<Rightarrow> block_converter)
   \<Rightarrow> (nat list \<Rightarrow> fields_spec \<Rightarrow> block_converter)
   \<Rightarrow> exportables \<Rightarrow> object_query list \<Rightarrow> int list
   \<Rightarrow> py_error + block_converter list" where
  "export_initialize_block_converters ExportBlockConverter SnapshotBlockConverter exportable
     ids_by_type exportable_queries =
     (let object_map = rev (map (\<lambda>(k, o_class). (o_class, o_class)) exportable);
          queries = get_exportable_queries ids_by_type exportable_queries
      in export_initialize_loop ExportBlockConverter SnapshotBlockConverter object_map [] queries)"

text \<open>
  \<open>export_csv_data\<close>, for a converter made by \<open>__init__\<close> (no block converters yet,
  \<open>exportable_queries or []\<close>). A \<open>ValueError\<close> of \<open>build_csv_from_row_data\<close> is caught
  and becomes the empty string; every other exception is passed on.
\<close>

definition export_csv_data ::
  "(string list \<Rightarrow> string)
   \<Rightarrow> (string \<Rightarrow> fields_spec \<Rightarrow> nat list \<Rightarrow> string \<Rightarrow> block_converter)
   \<Rightarrow> (nat list \<Rightarrow> fields_spec \<Rightarrow> block_converter)
   \<Rightarrow> exportables \<Rightarrow> object_query list \<Rightarrow> int list option
   \<Rightarrow> py_error + string" where
  "export_csv_data writerow ExportBlockConverter SnapshotBlockConverter exportable
     ids_by_type exportable_queries =
     (let exportable_queries = (case exportable_queries of None \<Rightarrow> [] | Some l \<Rightarrow> l)
      in case export_initialize_block_converters ExportBlockConverter SnapshotBlockConverter
                exportable ids_by_type exportable_queries of
           Inl e \<Rightarrow> Inl e
         | Inr block_converters \<Rightarrow>
             (case build_csv_from_row_data writerow block_converters of
                Inl ValueError \<Rightarrow> Inr []
              | Inl e \<Rightarrow> Inl e
              | Inr csv \<Rightarrow> Inr csv))"

section \<open>Import converter: one block converter per block\<close>

text \<open>\<open>str.strip()\<close> and \<open>str.lower()\<close> on ASCII text.\<close>

definition is_space :: "char \<Rightarrow> bool" where
  "is_space c \<longleftrightarrow> c \<in> set [CHR '' '', CHR 0x09, CHR 0x0A, CHR 0x0B, CHR 0x0C, CHR 0x0D]"

definition py_strip :: "string \<Rightarrow> string" where
  "py_strip s = rev (dropWhile is_space (rev (dropWhile is_space s)))"

definition py_lower :: "string \<Rightarrow> string" where
  "py_lower s =
     map (\<lambda>c. if 65 \<le> (of_char c :: nat) \<and> (of_char c :: nat) \<le> 90
               then char_of (of_char c + 32 :: nat) else c) s"

text \<open>
  The keyword arguments with which \<open>ImportBlockConverter\<close> is created.
  \<open>object_class\<close> is what \<open>exportable.get\<close> returns: a class, or \<open>None\<close>.
\<close>

record import_block_args =
  object_class :: "string option"
  rows :: "string list list"
  raw_headers :: "string list"
  offset :: nat
  class_name :: string
  csv_lines :: "nat list"

text \<open>
  \<open>ImportConverter.initialize_block_converters\<close>. \<open>split_blocks\<close>,
  \<open>extract_relevant_data\<close>, the class \<open>ImportBlockConverter\<close> and its method
  \<open>check_block_restrictions\<close> are not among the sources and are parameters. The
  generator is modelled by the list of the converters it yields; \<open>data[1][0]\<close> raises
  \<open>IndexError\<close> when the block has no second line or that line has no cell.
\<close>

fun import_blocks ::
  "(string list list \<Rightarrow> string list \<times> string list list)
   \<Rightarrow> (import_block_args \<Rightarrow> 'b) \<Rightarrow> ('b \<Rightarrow> 'b) \<Rightarrow> exportables
   \<Rightarrow> (nat \<times> string list list \<times> nat list) list \<Rightarrow> py_error + 'b list" where
  "import_blocks extract_relevant_data ImportBlockConverter check_block_restrictions exportable [] =
     Inr []"
| "import_blocks extract_relevant_data ImportBlockConverter check_block_restrictions exportable
     ((offs, data, lines) # rest) =
     (case data of
        line0 # (cell # cells) # others \<Rightarrow>
          (let cname = py_lower (py_strip cell);
               o_class = map_of exportable cname;
               (headers, rws) = extract_relevant_data data;
               block_converter = ImportBlockConverter
                 \<lparr>object_class = o_class, rows = rws, raw_headers = headers, offset = offs,
                  class_name = cname, csv_lines = drop 2 lines\<rparr>;
               block_converter = check_block_restrictions block_converter
           in case import_blocks extract_relevant_data ImportBlockConverter
                     check_block_restrictions exportable rest of
                Inl e \<Rightarrow> Inl e
              | Inr bcs \<Rightarrow> Inr (block_converter # bcs))
      | _ \<Rightarrow> Inl IndexError)"

definition import_initialize_block_converters ::
  "(string list list \<Rightarrow> (nat \<times> string list list \<times> nat list) list)
   \<Rightarrow> (string list list \<Rightarrow> string list \<times> string list list)
   \<Rightarrow> (import_block_args \<Rightarrow> 'b) \<Rightarrow> ('b \<Rightarrow> 'b) \<Rightarrow> exportables
   \<Rightarrow> string list list \<Rightarrow> py_error + 'b list" where
  "import_initialize_block_converters split_blocks extract_relevant_data ImportBlockConverter
     check_block_restrictions exportable csv_data =
     import_blocks extract_relevant_data ImportBlockConverter check_block_restrictions exportable
       (split_blocks csv_data)"

section \<open>Migration: the labels table\<close>

datatype sa_type = sa_String nat | sa_Integer | sa_DateTime

record column =
  column_name :: string
  column_type :: sa_type
  nullable :: bool
  primary_key :: bool

record foreign_key_constraint =
  fk_columns :: "string list"
  fk_refcolumns :: "string list"
  fk_name :: string

record table =
  columns :: "column list"
  foreign_keys :: "foreign_key_constraint list"
  indexes :: "(string \<times> string list) list"

text \<open>
  The schema of the database: the tables by name. The operations of \<open>alembic.op\<close> fail
  as the database does: creating a table or an index whose name is taken, and touching a
  table that is not there.
\<close>

type_synonym schema = "string \<Rightarrow> table option"

datatype db_error = TableExists | NoSuchTable | IndexExists

definition create_table ::
  "string \<Rightarrow> column list \<Rightarrow> foreign_key_constraint list \<Rightarrow> schema \<Rightarrow> db_error + schema" where
  "create_table tname cols fks s =
     (case s tname of
        Some t \<Rightarrow> Inl TableExists
      | None \<Rightarrow> Inr (s(tname \<mapsto> \<lparr>columns = cols, foreign_keys = fks, indexes = []\<rparr>)))"

definition create_index :: "string \<Rightarrow> string \<Rightarrow> string list \<Rightarrow> schema \<Rightarrow> db_error + schema" where
  "create_index iname tname cols s =
     (case s tname of
        None \<Rightarrow> Inl NoSuchTable
      | Some t \<Rightarrow>
          if iname \<in> fst ` set (indexes t) then Inl IndexExists
          else Inr (s(tname \<mapsto> t\<lparr>indexes := indexes t @ [(iname, cols)]\<rparr>)))"

definition drop_table :: "string \<Rightarrow> schema \<Rightarrow> db_error + schema" where
  "drop_table tname s =
     (case s tname of
        None \<Rightarrow> Inl NoSuchTable
      | Some t \<Rightarrow> Inr (s(tname := None)))"

definition TABLE_NAME :: string where
  "TABLE_NAME = ''labels''"

text \<open>
  \<open>sa.Column\<close> with its defaults: a column is nullable unless it says otherwise or is
  the primary key.
\<close>

definition Column :: "string \<Rightarrow> sa_type \<Rightarrow> bool \<Rightarrow> bool \<Rightarrow> column" where
  "Column cname ctype is_nullable is_primary_key =
     \<lparr>column_name = cname, column_type = ctype,
      nullable = (is_nullable \<and> \<not> is_primary_key), primary_key = is_primary_key\<rparr>"

definition upgrade :: "schema \<Rightarrow> db_error + schema" where
  "upgrade s =
     (case create_table TABLE_NAME
             [Column ''title'' (sa_String 250) False False,
              Column ''modified_by_id'' sa_Integer True False,
              Column ''created_at'' sa_DateTime False False,
              Column ''updated_at'' sa_DateTime False False,
              Column ''context_id'' sa_Integer True False,
              Column ''id'' sa_Integer True True]
             [\<lparr>fk_columns = [''context_id''], fk_refcolumns = [''contexts.id''],
               fk_name = ''fk_label_context_id''\<rparr>] s of
        Inl e \<Rightarrow> Inl e
      | Inr s1 \<Rightarrow>
          (case create_index (''ix_'' @ TABLE_NAME @ ''_updated_at'') TABLE_NAME [''updated_at''] s1 of
             Inl e \<Rightarrow> Inl e
           | Inr s2 \<Rightarrow>
               create_index (''fk_'' @ TABLE_NAME @ ''_contexts'') TABLE_NAME [''context_id''] s2))"

definition downgrade :: "schema \<Rightarrow> db_error + schema" where
  "downgrade s = drop_table TABLE_NAME s"

text \<open>
  The table the specification describes: the six columns, the primary key on \<open>id\<close>,
  the foreign key from \<open>context_id\<close> to \<open>contexts.id\<close> and the two indexes.
\<close>

definition labels_table :: table where
  "labels_table =
     \<lparr>columns =
        [\<lparr>column_name = ''title'', column_type = sa_String 250, nullable = False, primary_key = False\<rparr>,
         \<lparr>column_name = ''modified_by_id'', column_type = sa_Integer, nullable = True, primary_key = False\<rparr>,
         \<lparr>column_name = ''created_at'', column_type = sa_DateTime, nullable = False, primary_key = False\<rparr>,
         \<lparr>column_name = ''updated_at'', column_type = sa_DateTime, nullable = False, primary_key = False\<rparr>,
         \<lparr>column_name = ''context_id'', column_type = sa_Integer, nullable = True, primary_key = False\<rparr>,
         \<lparr>column_name = ''id'', column_type = sa_Integer, nullable = False, primary_key = True\<rparr>],
      foreign_keys =
        [\<lparr>fk_columns = [''context_id''], fk_refcolumns = [''contexts.id''],
          fk_name = ''fk_label_context_id''\<rparr>],
      indexes =
        [(''ix_labels_updated_at'', [''updated_at'']),
         (''fk_labels_contexts'', [''context_id''])]\<rparr>"

section \<open>REST client of the end-to-end tests\<close>

text \<open>
  What the client calls: \<open>urlparse.urljoin\<close>, \<open>environment.app_url\<close>,
  \<open>users.current_user\<close>, \<open>session_pool.get_session\<close> and the three request methods
  of the session. Each call that can read or change something outside the client takes
  the state of the world \<open>'w\<close> and returns the new one.
\<close>

record ('u, 's, 'j, 'h, 'r, 'w) rest_env =
  app_url :: string
  urljoin :: "string \<Rightarrow> string \<Rightarrow> string"
  current_user :: "'w \<Rightarrow> 'u \<times> 'w"
  get_session :: "'u \<Rightarrow> 'w \<Rightarrow> 's \<times> 'w"
  session_get :: "'s \<Rightarrow> string \<Rightarrow> 'w \<Rightarrow> 'r \<times> 'w"
  session_post :: "'s \<Rightarrow> string \<Rightarrow> 'j \<Rightarrow> 'w \<Rightarrow> 'r \<times> 'w"
  session_put :: "'s \<Rightarrow> string \<Rightarrow> 'j \<Rightarrow> 'h \<Rightarrow> 'w \<Rightarrow> 'r \<times> 'w"

definition user_session :: "('u, 's, 'j, 'h, 'r, 'w) rest_env \<Rightarrow> 'w \<Rightarrow> 's \<times> 'w" where
  "user_session env w = (let (u, w1) = current_user env w in get_session env u w1)"

definition send_get :: "('u, 's, 'j, 'h, 'r, 'w) rest_env \<Rightarrow> string \<Rightarrow> 'w \<Rightarrow> 'r \<times> 'w" where
  "send_get env url w =
     (let url = urljoin env (app_url env) url;
          (s, w1) = user_session env w
      in session_get env s url w1)"

definition send_post :: "('u, 's, 'j, 'h, 'r, 'w) rest_env \<Rightarrow> string \<Rightarrow> 'j \<Rightarrow> 'w \<Rightarrow> 'r \<times> 'w" where
  "send_post env url json_body w =
     (let url = urljoin env (app_url env) url;
          (s, w1) = user_session env w
      in session_post env s url json_body w1)"

definition send_put ::
  "('u, 's, 'j, 'h, 'r, 'w) rest_env \<Rightarrow> string \<Rightarrow> 'j \<Rightarrow> 'h \<Rightarrow> 'w \<Rightarrow> 'r \<times> 'w" where
  "send_put env url json_body headers w =
     (let url = urljoin env (app_url env) url;
          (s, w1) = user_session env w
      in session_put env s url json_body headers w1)"

section \<open>Theorems\<close>

lemma py_any_iff: "py_any cs \<longleftrightarrow> (\<exists>c \<in> set cs. c)"
  by (induction cs) auto

text \<open>
  C1. The eligibility predicate returns false exactly when the task is deprecated or
  verified, or finished without a verification flow, or in history, or overdue, or its
  workflow is archived; in every other case it returns true.
\<close>

theorem should_create_event_for_iff:
  "should_create_event_for t = False \<longleftrightarrow>
     (status t = Deprecated \<or> status t = Verified
      \<or> (status t = Finished \<and> \<not> is_verification_needed t)
      \<or> is_in_history t
      \<or> is_overdue t
      \<or> workflow_archived t)"
  unfolding should_create_event_for_def Let_def py_any_iff by auto

theorem should_create_event_for_iff_witness:
  "should_create_event_for
     \<lparr>task_id = 1, end_date = 10, status = Finished, task_title = ''t'',
      is_verification_needed = False, is_in_history = False, is_overdue = False,
      workflow_archived = False, acl = []\<rparr> = False
   \<and> should_create_event_for
     \<lparr>task_id = 2, end_date = 10, status = Finished, task_title = ''t'',
      is_verification_needed = True, is_in_history = False, is_overdue = False,
      workflow_archived = False, acl = []\<rparr> = True"
  using should_create_event_for_iff
    [of "\<lparr>task_id = 1, end_date = 10, status = Finished, task_title = ''t'',
      is_verification_needed = False, is_in_history = False, is_overdue = False,
      workflow_archived = False, acl = []\<rparr>"]
    should_create_event_for_iff
    [of "\<lparr>task_id = 2, end_date = 10, status = Finished, task_title = ''t'',
      is_verification_needed = True, is_in_history = False, is_overdue = False,
      workflow_archived = False, acl = []\<rparr>"]
  by simp

lemma filter_enumerated_nths:
  "filter_enumerated eq k qs = nths qs {i. int (i + k) \<in> set eq}"
proof (induction qs arbitrary: k)
  case Nil
  show ?case by simp
next
  case (Cons q qs)
  have shift: "{j. Suc j \<in> {i. int (i + k) \<in> set eq}} = {i. int (i + Suc k) \<in> set eq}"
    by (simp add: ac_simps)
  show ?case
    by (simp add: nths_Cons Cons.IH shift del: of_nat_add of_nat_Suc)
qed

text \<open>
  C10. With an empty index list the queries are returned unchanged; otherwise the result
  is exactly the sublist of \<open>ids_by_type\<close> at the positions that occur in
  \<open>exportable_queries\<close>, in their original order.
\<close>

theorem get_exportable_queries_spec:
  "get_exportable_queries ids_by_type [] = ids_by_type
   \<and> (exportable_queries \<noteq> [] \<longrightarrow>
        get_exportable_queries ids_by_type exportable_queries =
          nths ids_by_type {i. int i \<in> set exportable_queries})"
  by (simp add: get_exportable_queries_def filter_enumerated_nths)

theorem get_exportable_queries_spec_witness:
  "[2, 0, 7] \<noteq> ([] :: int list)
   \<and> get_exportable_queries [''a'', ''b'', ''c'', ''d''] [2, 0, 7] = [''a'', ''c'']"
proof -
  have ne: "[2, 0, 7] \<noteq> ([] :: int list)" by simp
  have "get_exportable_queries [''a'', ''b'', ''c'', ''d''] [2, 0, 7] = [''a'', ''c'']"
    by (simp add: get_exportable_queries_def)
  with ne get_exportable_queries_spec [of "[''a'', ''b'', ''c'', ''d'']" "[2, 0, 7]"]
  show ?thesis by simp
qed

subsection \<open>The mapping tables and the relationship rows\<close>

lemma dd_get_add: "dd_get (dd_add d k v) k' = (if k' = k then finsert v (dd_get d k) else dd_get d k')"
  by (simp add: dd_get_def dd_add_def)

lemma dd_get_discard: "dd_get (dd_discard d k v) k' = (if k' = k then dd_get d k |-| {|v|} else dd_get d k')"
  by (simp add: dd_get_def dd_discard_def)

lemma mappings_inverse_create_with:
  "mappings_inverse b \<Longrightarrow> mappings_inverse (fst (create_event_with_relationship b t p))"
  unfolding mappings_inverse_def create_event_with_relationship_def Let_def
  by (auto simp: dd_get_add)

lemma mappings_inverse_create:
  "mappings_inverse b \<Longrightarrow> mappings_inverse (create_event_relationship b t e)"
  unfolding mappings_inverse_def create_event_relationship_def
  by (auto simp: dd_get_add split: option.splits)

lemma mappings_inverse_delete:
  "mappings_inverse b \<Longrightarrow> mappings_inverse (delete_event_relationship b e t)"
  unfolding mappings_inverse_def delete_event_relationship_def
  by (auto simp: dd_get_discard split: option.splits)

lemma mappings_inverse_apply:
  "mappings_inverse b \<Longrightarrow> mappings_inverse (apply_builder_op b operation)"
  by (cases operation)
     (simp_all add: mappings_inverse_create_with mappings_inverse_create mappings_inverse_delete)

lemma mappings_inverse_init: "mappings_inverse (init_builder p evs rels n)"
  by (simp add: mappings_inverse_def init_builder_def dd_get_def)

text \<open>
  C9. The two mapping tables stay mutually inverse. They are inverse in a new builder,
  and each of the three operations keeps them inverse, so after any sequence of
  operations an event id is in \<open>task_mappings[task_id]\<close> exactly when the task id is in
  \<open>event_mappings[event_id]\<close>.
\<close>

theorem mappings_stay_inverse:
  "mappings_inverse (run_builder_ops (init_builder p evs rels n) ops)
   \<and> (mappings_inverse b \<longrightarrow> mappings_inverse (run_builder_ops b ops))"
proof -
  have step: "mappings_inverse b' \<Longrightarrow> mappings_inverse (run_builder_ops b' ops)" for b'
    by (induction ops arbitrary: b') (simp_all add: mappings_inverse_apply)
  show ?thesis using step mappings_inverse_init by blast
qed

lemma names_differ: "''CalendarEvent'' \<noteq> ''CycleTaskGroupObjectTask''"
  by simp








lemma delete_keeps_events:
  "db_events (delete_event_relationship b e t) = db_events b"
  "db_next_id (delete_event_relationship b e t) = db_next_id b"
  by (simp_all add: delete_event_relationship_def split: option.splits)

lemma deletes_keep_events:
  "db_events (delete_event_relationships t ids b) = db_events b"
  "db_next_id (delete_event_relationships t ids b) = db_next_id b"
  by (induction ids arbitrary: b) (simp_all add: delete_keeps_events)





lemma create_with_fields:
  "db_events (fst (create_event_with_relationship b t p)) =
     db_events b @ [snd (create_event_with_relationship b t p)]"
  "db_next_id (fst (create_event_with_relationship b t p)) = Suc (db_next_id b)"
  "event_id (snd (create_event_with_relationship b t p)) = db_next_id b"
  "attendee_id (snd (create_event_with_relationship b t p)) = p"
  "due_date (snd (create_event_with_relationship b t p)) = end_date t"
  by (simp_all add: create_event_with_relationship_def Let_def)


lemma create_rel_fields:
  "db_events (create_event_relationship b t ev) = db_events b"
  "db_next_id (create_event_relationship b t ev) = db_next_id b"
  by (simp_all add: create_event_relationship_def split: option.splits)










lemma notify_next_id:
  "db_next_id b \<le> db_next_id (fst (notify_persons t ps (b, ids)))"
proof (induction ps arbitrary: b ids)
  case Nil
  show ?case by simp
next
  case (Cons p ps)
  show ?case
  proof (cases "get_event_by_date_and_attendee b p (end_date t)")
    case None
    have "db_next_id (fst (create_event_with_relationship b t p))
            \<le> db_next_id (fst (notify_persons t ps (fst (create_event_with_relationship b t p), ids)))"
      by (rule Cons.IH)
    with None show ?thesis by (simp add: create_with_fields)
  next
    case (Some ev)
    have "db_next_id (create_event_relationship b t ev)
            \<le> db_next_id (fst (notify_persons t ps (create_event_relationship b t ev, ids |-| {|event_id ev|})))"
      by (rule Cons.IH)
    with Some show ?thesis by (simp add: create_rel_fields)
  qed
qed

lemma notify_events:
  "\<exists>news. db_events (fst (notify_persons t ps (b, ids))) = db_events b @ news
     \<and> (\<forall>e \<in> set news. due_date e = end_date t \<and> attendee_id e \<in> set ps
            \<and> db_next_id b \<le> event_id e)"
proof (induction ps arbitrary: b ids)
  case Nil
  show ?case by simp
next
  case (Cons p ps)
  show ?case
  proof (cases "get_event_by_date_and_attendee b p (end_date t)")
    case None
    let ?b1 = "fst (create_event_with_relationship b t p)"
    let ?e = "snd (create_event_with_relationship b t p)"
    obtain news where n: "db_events (fst (notify_persons t ps (?b1, ids))) = db_events ?b1 @ news"
      "\<forall>e \<in> set news. due_date e = end_date t \<and> attendee_id e \<in> set ps \<and> db_next_id ?b1 \<le> event_id e"
      using Cons.IH [of ?b1 ids] by blast
    have "db_events (fst (notify_persons t (p # ps) (b, ids))) = db_events b @ (?e # news)"
      using None n(1) by (simp add: create_with_fields)
    moreover have "\<forall>e \<in> set (?e # news). due_date e = end_date t \<and> attendee_id e \<in> set (p # ps)
            \<and> db_next_id b \<le> event_id e"
      using n(2) by (auto simp: create_with_fields)
    ultimately show ?thesis by blast
  next
    case (Some ev)
    let ?b1 = "create_event_relationship b t ev"
    obtain news where n: "db_events (fst (notify_persons t ps (?b1, ids |-| {|event_id ev|}))) = db_events ?b1 @ news"
      "\<forall>e \<in> set news. due_date e = end_date t \<and> attendee_id e \<in> set ps \<and> db_next_id ?b1 \<le> event_id e"
      using Cons.IH [of ?b1 "ids |-| {|event_id ev|}"] by blast
    have "db_events (fst (notify_persons t (p # ps) (b, ids))) = db_events b @ news"
      using Some n(1) by (simp add: create_rel_fields)
    moreover have "\<forall>e \<in> set news. due_date e = end_date t \<and> attendee_id e \<in> set (p # ps)
            \<and> db_next_id b \<le> event_id e"
      using n(2) by (auto simp: create_rel_fields)
    ultimately show ?thesis by blast
  qed
qed








lemma generate_unfold:
  "generate_events_for_task b t =
     (if should_create_event_for t
      then delete_event_relationships (task_id t)
             (sorted_list_of_fset (snd (notify_persons t (sorted_list_of_fset (get_task_persons_ids_to_notify t)) (b, initial_events_ids b t))))
             (fst (notify_persons t (sorted_list_of_fset (get_task_persons_ids_to_notify t)) (b, initial_events_ids b t)))
      else delete_event_relationships (task_id t)
             (sorted_list_of_fset (initial_events_ids b t)) b)"
  by (simp add: generate_events_for_task_def Let_def split: prod.splits)

lemma generate_ineligible_events:
  "\<not> should_create_event_for t \<Longrightarrow> db_events (generate_events_for_task b t) = db_events b"
  by (simp add: generate_unfold deletes_keep_events)







theorem mappings_stay_inverse_witness:
  "mappings_inverse
     \<lparr>task_mappings = [1 \<mapsto> {|5|}], event_mappings = [5 \<mapsto> {|1|}], title_prefix = [],
      db_events = [], db_relationships = [], db_next_id = 6\<rparr>
   \<and> mappings_inverse
        (run_builder_ops
           \<lparr>task_mappings = [1 \<mapsto> {|5|}], event_mappings = [5 \<mapsto> {|1|}], title_prefix = [],
            db_events = [], db_relationships = [], db_next_id = 6\<rparr>
           [CreateEventWithRelationship
              \<lparr>task_id = 2, end_date = 10, status = Assigned, task_title = ''Review'',
               is_verification_needed = False, is_in_history = False, is_overdue = False,
               workflow_archived = False, acl = []\<rparr> 7,
            DeleteEventRelationship 6 2])"
proof -
  let ?b = "\<lparr>task_mappings = [1 \<mapsto> {|5|}], event_mappings = [5 \<mapsto> {|1::nat|}], title_prefix = [],
      db_events = [], db_relationships = [], db_next_id = 6\<rparr>"
  have inv: "mappings_inverse ?b"
    by (auto simp: mappings_inverse_def dd_get_def)
  from inv mappings_stay_inverse [of "[]" "[]" "[]" 0 _ ?b] show ?thesis by blast
qed


lemma persons_to_notify_roles:
  "fset (get_task_persons_ids_to_notify t) =
     set (get_person_ids_for_rolename t ''Task Assignees'')
     \<union> set (get_person_ids_for_rolename t ''Task Secondary Assignees'')"
  by (simp add: get_task_persons_ids_to_notify_def roles_to_notify_def fset_of_list.rep_eq)

lemma generate_new_events:
  "e \<in> set (db_events (generate_events_for_task b t)) \<Longrightarrow>
   e \<in> set (db_events b) \<or>
   (due_date e = end_date t \<and> attendee_id e |\<in>| get_task_persons_ids_to_notify t)"
proof (cases "should_create_event_for t")
  case False
  assume "e \<in> set (db_events (generate_events_for_task b t))"
  with False show ?thesis by (simp add: generate_ineligible_events)
next
  case True
  let ?ps = "sorted_list_of_fset (get_task_persons_ids_to_notify t)"
  assume "e \<in> set (db_events (generate_events_for_task b t))"
  with True have e: "e \<in> set (db_events (fst (notify_persons t ?ps (b, initial_events_ids b t))))"
    by (simp add: generate_unfold deletes_keep_events)
  obtain news where n: "db_events (fst (notify_persons t ?ps (b, initial_events_ids b t))) = db_events b @ news"
    "\<forall>e \<in> set news. due_date e = end_date t \<and> attendee_id e \<in> set ?ps \<and> db_next_id b \<le> event_id e"
    using notify_events [of t ?ps b "initial_events_ids b t"] by blast
  from e n show ?thesis by auto
qed

text \<open>
  C5. The event built by \<open>_create_event_with_relationship\<close> has the due date of the
  task and the given person as attendee, and the same operation adds it to the session
  together with a relationship row from the task (source) to the event (destination).
  Every event that a pass of \<open>_generate_events_for_task\<close> adds has the end date of the
  task as due date and an attendee who holds the role "Task Assignees" or "Task
  Secondary Assignees" on the task.
\<close>

theorem created_event_spec:
  "(let (b', event) = create_event_with_relationship b t person_id
    in due_date event = end_date t \<and> attendee_id event = person_id
       \<and> event \<in> set (db_events b')
       \<and> \<lparr>source_type = ''CycleTaskGroupObjectTask'', source_id = task_id t,
           destination_type = ''CalendarEvent'', destination_id = event_id event\<rparr>
            \<in> set (db_relationships b'))
   \<and> (\<forall>e \<in> set (db_events (generate_events_for_task b t)).
         e \<in> set (db_events b)
         \<or> (due_date e = end_date t
            \<and> attendee_id e \<in> set (get_person_ids_for_rolename t ''Task Assignees'')
                               \<union> set (get_person_ids_for_rolename t ''Task Secondary Assignees'')))"
proof -
  have op: "(let (b', event) = create_event_with_relationship b t person_id
    in due_date event = end_date t \<and> attendee_id event = person_id
       \<and> event \<in> set (db_events b')
       \<and> \<lparr>source_type = ''CycleTaskGroupObjectTask'', source_id = task_id t,
           destination_type = ''CalendarEvent'', destination_id = event_id event\<rparr>
            \<in> set (db_relationships b'))"
    by (simp add: create_event_with_relationship_def Let_def Relationship_def)
  have pass: "e \<in> set (db_events b)
         \<or> (due_date e = end_date t
            \<and> attendee_id e \<in> set (get_person_ids_for_rolename t ''Task Assignees'')
                               \<union> set (get_person_ids_for_rolename t ''Task Secondary Assignees''))"
    if "e \<in> set (db_events (generate_events_for_task b t))" for e
    using generate_new_events [OF that] unfolding persons_to_notify_roles [symmetric] by simp
  from op pass show ?thesis by blast
qed

theorem created_event_spec_witness:
  "(let t = \<lparr>task_id = 3, end_date = 10, status = Assigned, task_title = ''Review'',
              is_verification_needed = False, is_in_history = False, is_overdue = False,
              workflow_archived = False,
              acl = [(''Task Assignees'', 7), (''Task Secondary Assignees'', 8), (''Admin'', 9)]\<rparr>;
        b = \<lparr>task_mappings = [3 \<mapsto> {|5, 6|}],
             event_mappings = [5 \<mapsto> {|3|}, 6 \<mapsto> {|3|}],
             title_prefix = [],
             db_events = [\<lparr>event_id = 5, due_date = 10, attendee_id = 7,
                           event_title = ''Your tasks are due today'', modified_by_id = 7\<rparr>,
                          \<lparr>event_id = 6, due_date = 9, attendee_id = 7,
                           event_title = ''Your tasks are due today'', modified_by_id = 7\<rparr>],
             db_relationships = [\<lparr>source_type = ''CycleTaskGroupObjectTask'', source_id = 3,
                                   destination_type = ''CalendarEvent'', destination_id = 5\<rparr>,
                                 \<lparr>source_type = ''CycleTaskGroupObjectTask'', source_id = 3,
                                   destination_type = ''CalendarEvent'', destination_id = 6\<rparr>],
             db_next_id = 7\<rparr>;
        new_event = \<lparr>event_id = 7, due_date = 10, attendee_id = 8,
                     event_title = ''Your tasks are due today'', modified_by_id = 8\<rparr>
    in (let (b', event) = create_event_with_relationship b t 8
        in due_date event = end_date t \<and> attendee_id event = 8
           \<and> event \<in> set (db_events b')
           \<and> \<lparr>source_type = ''CycleTaskGroupObjectTask'', source_id = task_id t,
               destination_type = ''CalendarEvent'', destination_id = event_id event\<rparr>
                \<in> set (db_relationships b'))
       \<and> new_event \<in> set (db_events (generate_events_for_task b t))
       \<and> new_event \<notin> set (db_events b)
       \<and> due_date new_event = end_date t
       \<and> attendee_id new_event \<in> set (get_person_ids_for_rolename t ''Task Assignees'')
                                   \<union> set (get_person_ids_for_rolename t ''Task Secondary Assignees''))"
proof -
  let ?t = "\<lparr>task_id = 3, end_date = 10, status = Assigned, task_title = ''Review'',
              is_verification_needed = False, is_in_history = False, is_overdue = False,
              workflow_archived = False,
              acl = [(''Task Assignees'', 7), (''Task Secondary Assignees'', 8), (''Admin'', 9)]\<rparr>"
  let ?b = "\<lparr>task_mappings = [3 \<mapsto> {|5, 6|}],
             event_mappings = [5 \<mapsto> {|3::nat|}, 6 \<mapsto> {|3|}],
             title_prefix = [],
             db_events = [\<lparr>event_id = 5, due_date = 10, attendee_id = 7,
                           event_title = ''Your tasks are due today'', modified_by_id = 7\<rparr>,
                          \<lparr>event_id = 6, due_date = 9, attendee_id = 7,
                           event_title = ''Your tasks are due today'', modified_by_id = 7\<rparr>],
             db_relationships = [\<lparr>source_type = ''CycleTaskGroupObjectTask'', source_id = 3,
                                   destination_type = ''CalendarEvent'', destination_id = 5\<rparr>,
                                 \<lparr>source_type = ''CycleTaskGroupObjectTask'', source_id = 3,
                                   destination_type = ''CalendarEvent'', destination_id = 6\<rparr>],
             db_next_id = 7\<rparr>"
  let ?e = "\<lparr>event_id = 7, due_date = 10, attendee_id = 8,
             event_title = ''Your tasks are due today'', modified_by_id = 8\<rparr>"
  have pass: "db_events (generate_events_for_task ?b ?t) =
      [\<lparr>event_id = 5, due_date = 10, attendee_id = 7,
        event_title = ''Your tasks are due today'', modified_by_id = 7\<rparr>,
       \<lparr>event_id = 6, due_date = 9, attendee_id = 7,
        event_title = ''Your tasks are due today'', modified_by_id = 7\<rparr>,
       ?e]"
    by code_simp
  have new: "?e \<in> set (db_events (generate_events_for_task ?b ?t))"
    unfolding pass by simp
  have old: "?e \<notin> set (db_events ?b)"
    by simp
  note spec = created_event_spec [of ?b ?t 8]
  have "?e \<in> set (db_events ?b)
        \<or> (due_date ?e = end_date ?t
           \<and> attendee_id ?e \<in> set (get_person_ids_for_rolename ?t ''Task Assignees'')
                               \<union> set (get_person_ids_for_rolename ?t ''Task Secondary Assignees''))"
    using conjunct2 [OF spec] new by (rule bspec)
  with old have props: "due_date ?e = end_date ?t
           \<and> attendee_id ?e \<in> set (get_person_ids_for_rolename ?t ''Task Assignees'')
                               \<union> set (get_person_ids_for_rolename ?t ''Task Secondary Assignees'')"
    by blast
  show ?thesis
    unfolding Let_def
    using conjunct1 [OF spec, unfolded Let_def] new old conjunct1 [OF props] conjunct2 [OF props]
    by (intro conjI) assumption+
qed

subsection \<open>The exported CSV\<close>

lemma py_max_Max: "xs \<noteq> [] \<Longrightarrow> py_max xs = Inr (Max (set xs))"
proof (cases xs)
  case Nil
  assume "xs \<noteq> []"
  with Nil show ?thesis by simp
next
  case (Cons a list)
  then show ?thesis using Max.set_eq_fold [of a list] by simp
qed

lemma append_line_fields:
  "table_width (append_line w sb line) = table_width sb"
  "csv_string (append_line w sb line) = csv_string sb @ w (pad_line (table_width sb) line)"
  by (simp_all add: append_line_def)

lemma fold_append_line:
  "fold (\<lambda>line s. append_line w s (f line)) ls sb =
     sb\<lparr>csv_string := csv_string sb
          @ concat (map (\<lambda>line. w (pad_line (table_width sb) (f line))) ls)\<rparr>"
  by (induction ls arbitrary: sb) (simp_all add: append_line_def)

lemma pad_line_Nil: "pad_line width [] = replicate width []"
  by (simp add: pad_line_def)

lemma export_blocks_closed:
  "\<forall>bc \<in> set bcs. 2 \<le> length (csv_header bc) \<Longrightarrow>
   export_blocks w sb bcs =
     Inr (sb\<lparr>csv_string := csv_string sb
            @ concat (map w (concat (map (expected_block_lines (table_width sb)) bcs)))\<rparr>)"
proof (induction bcs arbitrary: sb)
  case Nil
  show ?case by simp
next
  case (Cons bc bcs)
  from Cons.prems obtain h0 h1 others where h: "csv_header bc = h0 # h1 # others"
    by (cases "csv_header bc"; cases "tl (csv_header bc)") auto
  let ?sb2 = "append_line w (append_line w sb (''Object type'' # h0)) (name bc # h1)"
  let ?sb3 = "fold (\<lambda>line s. append_line w s ([] # line)) (row_data bc) ?sb2"
  let ?sb5 = "append_line w (append_line w ?sb3 []) []"
  have sb2: "?sb2 = sb\<lparr>csv_string := csv_string sb
      @ w (pad_line (table_width sb) (''Object type'' # h0))
      @ w (pad_line (table_width sb) (name bc # h1))\<rparr>"
    by (simp add: append_line_def)
  have sb3: "?sb3 = ?sb2\<lparr>csv_string := csv_string ?sb2
      @ concat (map (\<lambda>line. w (pad_line (table_width ?sb2) ([] # line))) (row_data bc))\<rparr>"
    by (rule fold_append_line)
  have sb5': "?sb5 = ?sb3\<lparr>csv_string := csv_string ?sb3
      @ w (pad_line (table_width ?sb3) []) @ w (pad_line (table_width ?sb3) [])\<rparr>"
    by (simp add: append_line_def)
  have sb5: "?sb5 = sb\<lparr>csv_string := csv_string sb
      @ concat (map w (expected_block_lines (table_width sb) bc))\<rparr>"
    unfolding sb5' unfolding sb3 unfolding sb2
    by (simp add: expected_block_lines_def h pad_line_Nil comp_def)
  have "export_blocks w sb (bc # bcs) = export_blocks w ?sb5 bcs"
    by (simp add: h Let_def)
  also have "\<dots> = Inr (?sb5\<lparr>csv_string := csv_string ?sb5
            @ concat (map w (concat (map (expected_block_lines (table_width ?sb5)) bcs)))\<rparr>)"
    using Cons.prems by (intro Cons.IH) simp
  also have "\<dots> = Inr (sb\<lparr>csv_string := csv_string sb
            @ concat (map w (concat (map (expected_block_lines (table_width sb)) (bc # bcs))))\<rparr>)"
    unfolding sb5 by simp
  finally show ?case .
qed

lemma length_pad_line: "length (pad_line width line) = max width (length line)"
  by (simp add: pad_line_def)

lemma expected_lines_wide:
  "line \<in> set (expected_block_lines width bc) \<Longrightarrow> width \<le> length line"
  by (auto simp: expected_block_lines_def length_pad_line)

lemma expected_lines_exact:
  assumes "2 \<le> length (csv_header bc)"
    and "\<forall>l \<in> set (csv_header bc) \<union> set (row_data bc). length l < width"
    and "line \<in> set (expected_block_lines width bc)"
  shows "length line = width"
proof -
  from assms(1) have "0 < length (csv_header bc)" "1 < length (csv_header bc)"
    by linarith+
  then have "csv_header bc ! 0 \<in> set (csv_header bc)" "csv_header bc ! 1 \<in> set (csv_header bc)"
    using nth_mem [of 0 "csv_header bc"] nth_mem [of 1 "csv_header bc"] by blast+
  with assms(2) have "length (csv_header bc ! 0) < width" "length (csv_header bc ! 1) < width"
    by blast+
  moreover have "\<forall>l \<in> set (row_data bc). Suc (length l) \<le> width"
    using assms(2) by (simp add: Suc_leI)
  ultimately show ?thesis
    using assms(3) by (auto simp: expected_block_lines_def length_pad_line max_def)
qed

text \<open>
  C3. For a non-empty list of block converters whose headers have their two lines, the
  exported CSV is the rows of the blocks in order: for each block the "Object type"
  line, the line with the name of the block, the data rows behind an empty first cell,
  and two empty lines. The table width is one more than the widest block, every line is
  padded to at least that width, and to exactly that width when no header line or data
  row is longer than its block is wide.
\<close>

theorem build_csv_from_row_data_blocks:
  assumes nonempty: "block_converters \<noteq> []"
    and headers: "\<forall>bc \<in> set block_converters. 2 \<le> length (csv_header bc)"
  shows
    "build_csv_from_row_data writerow block_converters =
       Inr (concat (map writerow (concat (map
              (expected_block_lines (Suc (Max (block_width ` set block_converters))))
              block_converters))))
     \<and> (\<forall>bc \<in> set block_converters.
          \<forall>line \<in> set (expected_block_lines (Suc (Max (block_width ` set block_converters))) bc).
            Suc (Max (block_width ` set block_converters)) \<le> length line)
     \<and> ((\<forall>bc \<in> set block_converters.
            \<forall>l \<in> set (csv_header bc) \<union> set (row_data bc). length l \<le> block_width bc)
         \<longrightarrow> (\<forall>bc \<in> set block_converters.
               \<forall>line \<in> set (expected_block_lines (Suc (Max (block_width ` set block_converters))) bc).
                 length line = Suc (Max (block_width ` set block_converters))))"
proof -
  let ?tw = "Suc (Max (block_width ` set block_converters))"
  have mx: "py_max (map block_width block_converters) = Inr (Max (block_width ` set block_converters))"
    using nonempty py_max_Max [of "map block_width block_converters"] by simp
  have "export_blocks writerow (CsvStringBuilder ?tw) block_converters =
     Inr ((CsvStringBuilder ?tw)\<lparr>csv_string := csv_string (CsvStringBuilder ?tw)
            @ concat (map writerow (concat (map (expected_block_lines (table_width (CsvStringBuilder ?tw)))
                 block_converters)))\<rparr>)"
    using headers by (rule export_blocks_closed)
  then have 1: "build_csv_from_row_data writerow block_converters =
       Inr (concat (map writerow (concat (map (expected_block_lines ?tw) block_converters))))"
    by (simp add: build_csv_from_row_data_def mx CsvStringBuilder_def get_csv_string_def)
  have 2: "?tw \<le> length line"
    if "bc \<in> set block_converters" "line \<in> set (expected_block_lines ?tw bc)" for bc line
    using that(2) by (rule expected_lines_wide)
  have 3: "length line = ?tw"
    if fit: "\<forall>bc \<in> set block_converters.
            \<forall>l \<in> set (csv_header bc) \<union> set (row_data bc). length l \<le> block_width bc"
      and bc: "bc \<in> set block_converters" and line: "line \<in> set (expected_block_lines ?tw bc)"
    for bc line
  proof -
    have "block_width bc \<le> Max (block_width ` set block_converters)"
      using bc by (intro Max_ge) simp_all
    moreover have "\<forall>l \<in> set (csv_header bc) \<union> set (row_data bc). length l \<le> block_width bc"
      using fit bc by blast
    ultimately have "\<forall>l \<in> set (csv_header bc) \<union> set (row_data bc). length l < ?tw"
      by (meson le_imp_less_Suc le_trans)
    with headers bc line show ?thesis using expected_lines_exact [of bc ?tw line] by blast
  qed
  from 1 2 3 show ?thesis by blast
qed

text \<open>
  C8. With no block converters the maximum of the block widths raises \<open>ValueError\<close>,
  and \<open>export_csv_data\<close> returns the empty string: whenever the selected queries are
  empty, and in particular for an empty \<open>ids_by_type\<close>.
\<close>

theorem export_csv_data_empty:
  "build_csv_from_row_data writerow [] = Inl ValueError
   \<and> (get_exportable_queries ids_by_type (case exportable_queries of None \<Rightarrow> [] | Some l \<Rightarrow> l) = []
        \<longrightarrow> export_csv_data writerow ExportBlockConverter SnapshotBlockConverter exportable
              ids_by_type exportable_queries = Inr [])
   \<and> export_csv_data writerow ExportBlockConverter SnapshotBlockConverter exportable
        [] exportable_queries = Inr []"
proof -
  have 1: "build_csv_from_row_data writerow [] = Inl ValueError"
    by (simp add: build_csv_from_row_data_def)
  have 2: "export_csv_data writerow ExportBlockConverter SnapshotBlockConverter exportable
              ids exportable_queries = Inr []"
    if "get_exportable_queries ids (case exportable_queries of None \<Rightarrow> [] | Some l \<Rightarrow> l) = []"
    for ids
    using that
    by (simp add: export_csv_data_def export_initialize_block_converters_def Let_def 1)
  have 3: "get_exportable_queries ([] :: object_query list)
             (case exportable_queries of None \<Rightarrow> [] | Some l \<Rightarrow> l) = []"
    by (simp add: get_exportable_queries_def)
  from 1 2 [of ids_by_type] 2 [OF 3] show ?thesis by blast
qed

theorem build_csv_from_row_data_blocks_witness:
  "(let writerow = (\<lambda>line. concat (map (\<lambda>c. c @ '','') line) @ '';'');
        block_converters =
          [\<lparr>name = ''Control'', block_width = 2,
            csv_header = [[''Code'', ''Title''], [''unique'', ''required'']],
            row_data = [[''C1'', ''T1'']]\<rparr>,
           \<lparr>name = ''Risk'', block_width = 1,
            csv_header = [[''Code''], [''unique'']],
            row_data = []\<rparr>]
    in block_converters \<noteq> []
       \<and> map (\<lambda>bc. length (csv_header bc)) block_converters = [2, 2]
       \<and> Suc (Max (block_width ` set block_converters)) = 3
       \<and> build_csv_from_row_data writerow block_converters =
           Inr (''Object type,Code,Title,;Control,unique,required,;,C1,T1,;,,,;,,,;''
                @ ''Object type,Code,,;Risk,unique,,;,,,;,,,;''))"
proof -
  let ?w = "\<lambda>line. concat (map (\<lambda>c. c @ '','') line) @ '';''"
  let ?bcs = "[\<lparr>name = ''Control'', block_width = 2,
            csv_header = [[''Code'', ''Title''], [''unique'', ''required'']],
            row_data = [[''C1'', ''T1'']]\<rparr>,
           \<lparr>name = ''Risk'', block_width = 1,
            csv_header = [[''Code''], [''unique'']],
            row_data = []\<rparr>]"
  have ne: "?bcs \<noteq> []" by simp
  have hd: "\<forall>bc \<in> set ?bcs. 2 \<le> length (csv_header bc)" by simp
  have hl: "map (\<lambda>bc. length (csv_header bc)) ?bcs = [2, 2]" by simp
  have tw: "Suc (Max (block_width ` set ?bcs)) = 3" by simp
  have out: "concat (map ?w (concat (map (expected_block_lines 3) ?bcs))) =
     ''Object type,Code,Title,;Control,unique,required,;,C1,T1,;,,,;,,,;''
                @ ''Object type,Code,,;Risk,unique,,;,,,;,,,;''"
    by (simp add: expected_block_lines_def pad_line_def numeral_3_eq_3)
  have "build_csv_from_row_data ?w ?bcs =
       Inr (concat (map ?w (concat (map
              (expected_block_lines (Suc (Max (block_width ` set ?bcs)))) ?bcs))))"
    using build_csv_from_row_data_blocks [OF ne hd, of ?w] by (rule conjunct1)
  then have "build_csv_from_row_data ?w ?bcs =
     Inr (''Object type,Code,Title,;Control,unique,required,;,C1,T1,;,,,;,,,;''
                @ ''Object type,Code,,;Risk,unique,,;,,,;,,,;'')"
    unfolding tw out .
  with ne hl tw show ?thesis unfolding Let_def by (intro conjI)
qed

theorem export_csv_data_empty_witness:
  "get_exportable_queries
     [\<lparr>object_name = Some ''Control'', query_ids = Some [1, 2], query_fields = None\<rparr>]
     (case Some [5] of None \<Rightarrow> [] | Some l \<Rightarrow> l) = []
   \<and> export_csv_data (\<lambda>line. concat line)
        (\<lambda>object_class flds object_ids class_name.
           \<lparr>name = class_name, block_width = 0, csv_header = [[], []], row_data = []\<rparr>)
        (\<lambda>object_ids flds.
           \<lparr>name = ''Snapshot'', block_width = 0, csv_header = [[], []], row_data = []\<rparr>)
        [(''control'', ''Control'')]
        [\<lparr>object_name = Some ''Control'', query_ids = Some [1, 2], query_fields = None\<rparr>]
        (Some [5]) = Inr []"
proof -
  have q: "get_exportable_queries
     [\<lparr>object_name = Some ''Control'', query_ids = Some [1, 2], query_fields = None\<rparr>]
     (case Some [5] of None \<Rightarrow> [] | Some l \<Rightarrow> l) = []"
    by (simp add: get_exportable_queries_def)
  from q export_csv_data_empty
    [of "\<lambda>line. concat line"
        "[\<lparr>object_name = Some ''Control'', query_ids = Some [1, 2], query_fields = None\<rparr>]"
        "Some [5]"
        "\<lambda>object_class flds object_ids class_name.
           \<lparr>name = class_name, block_width = 0, csv_header = [[], []], row_data = []\<rparr>"
        "\<lambda>object_ids flds.
           \<lparr>name = ''Snapshot'', block_width = 0, csv_header = [[], []], row_data = []\<rparr>"
        "[(''control'', ''Control'')]"]
  show ?thesis by blast
qed

subsection \<open>The import blocks\<close>

lemma import_blocks_map:
  "\<forall>(offs, data, lines) \<in> set blocks. 2 \<le> length data \<and> data ! 1 \<noteq> [] \<Longrightarrow>
   import_blocks extract_relevant_data ImportBlockConverter check_block_restrictions exportable blocks =
     Inr (map (\<lambda>(offs, data, lines).
            check_block_restrictions (ImportBlockConverter
              \<lparr>object_class = map_of exportable (py_lower (py_strip (data ! 1 ! 0))),
               rows = snd (extract_relevant_data data),
               raw_headers = fst (extract_relevant_data data),
               offset = offs,
               class_name = py_lower (py_strip (data ! 1 ! 0)),
               csv_lines = drop 2 lines\<rparr>)) blocks)"
proof (induction blocks)
  case Nil
  show ?case by simp
next
  case (Cons blk blocks)
  obtain offs data lines where blk: "blk = (offs, data, lines)" by (cases blk)
  with Cons.prems have d: "2 \<le> length data" "data ! 1 \<noteq> []" by simp_all
  then obtain line0 cell cells others where data: "data = line0 # (cell # cells) # others"
    by (cases data; cases "tl data"; cases "hd (tl data)") auto
  from Cons.prems have "\<forall>(offs, data, lines) \<in> set blocks. 2 \<le> length data \<and> data ! 1 \<noteq> []"
    by simp
  from Cons.IH [OF this] show ?case
    unfolding blk data by (simp add: Let_def split: prod.splits)
qed

text \<open>
  C4, as amended. When every block that \<open>split_blocks\<close> returns has a second line with
  a first cell, \<open>initialize_block_converters\<close> yields one block converter per block, in
  order. The class name of a converter is the stripped, lower-case first cell of the
  second line of its block, and its object class is what the exportables hold under that
  name: the registered class, or none when the name is not registered. The CSV lines
  handed to the converter are those of the block without the first two, and the headers
  and rows are what \<open>extract_relevant_data\<close> returns for the block.
\<close>

theorem import_initialize_block_converters_spec:
  assumes "\<forall>(offs, data, lines) \<in> set (split_blocks csv_data). 2 \<le> length data \<and> data ! 1 \<noteq> []"
  shows
    "import_initialize_block_converters split_blocks extract_relevant_data ImportBlockConverter
       check_block_restrictions exportable csv_data =
     Inr (map (\<lambda>(offs, data, lines).
            check_block_restrictions (ImportBlockConverter
              \<lparr>object_class = map_of exportable (py_lower (py_strip (data ! 1 ! 0))),
               rows = snd (extract_relevant_data data),
               raw_headers = fst (extract_relevant_data data),
               offset = offs,
               class_name = py_lower (py_strip (data ! 1 ! 0)),
               csv_lines = drop 2 lines\<rparr>)) (split_blocks csv_data))"
  unfolding import_initialize_block_converters_def
  using assms by (rule import_blocks_map)

lemma lower_strip_widget: "py_lower (py_strip '' Widget '') = ''widget''"
  by code_simp

text \<open>
  A block whose second line names a type that is not registered still gets its block
  converter, with no object class.
\<close>

theorem import_unregistered_type_counterexample:
  "import_initialize_block_converters
     (\<lambda>csv_data. [(0, csv_data, [3, 4, 5])])
     (\<lambda>data. (tl (data ! 1), map tl (drop 2 data)))
     (\<lambda>args. args) (\<lambda>block_converter. block_converter)
     [(''control'', ''Control'')]
     [[''Object type''], ['' Widget '', ''Code''], ['''', ''W-1'']]
   = Inr [\<lparr>object_class = None, rows = [[''W-1'']], raw_headers = [''Code''], offset = 0,
           class_name = ''widget'', csv_lines = [5]\<rparr>]"
  by (simp add: import_initialize_block_converters_def lower_strip_widget)

theorem import_initialize_block_converters_spec_witness:
  "length [[''Object type''], ['' Control '', ''Code''], ['''', ''C-1'']] = 3
   \<and> [[''Object type''], ['' Control '', ''Code''], ['''', ''C-1'']] ! 1 ! 0 = '' Control ''
   \<and> import_initialize_block_converters
     (\<lambda>csv_data. [(0, csv_data, [3, 4, 5])])
     (\<lambda>data. (tl (data ! 1), map tl (drop 2 data)))
     (\<lambda>args. args) (\<lambda>block_converter. block_converter)
     [(''control'', ''Control'')]
     [[''Object type''], ['' Control '', ''Code''], ['''', ''C-1'']]
   = Inr [\<lparr>object_class = Some ''Control'', rows = [[''C-1'']], raw_headers = [''Code''],
           offset = 0, class_name = ''control'', csv_lines = [5]\<rparr>]"
proof -
  let ?split = "\<lambda>csv_data :: string list list. [(0 :: nat, csv_data, [3, 4, 5 :: nat])]"
  let ?csv = "[[''Object type''], ['' Control '', ''Code''], ['''', ''C-1'']]"
  have h: "\<forall>(offs, data, lines) \<in> set (?split ?csv). 2 \<le> length data \<and> data ! 1 \<noteq> []"
    by simp
  have nm: "py_lower (py_strip '' Control '') = ''control''"
    by code_simp
  have rhs: "map (\<lambda>(offs, data, lines).
            (\<lambda>block_converter. block_converter) ((\<lambda>args. args)
              \<lparr>object_class = map_of [(''control'', ''Control'')] (py_lower (py_strip (data ! 1 ! 0))),
               rows = snd ((\<lambda>data. (tl (data ! 1), map tl (drop 2 data))) data),
               raw_headers = fst ((\<lambda>data. (tl (data ! 1), map tl (drop 2 data))) data),
               offset = offs,
               class_name = py_lower (py_strip (data ! 1 ! 0)),
               csv_lines = drop 2 lines\<rparr>)) (?split ?csv)
     = [\<lparr>object_class = Some ''Control'', rows = [[''C-1'']], raw_headers = [''Code''],
           offset = 0, class_name = ''control'', csv_lines = [5]\<rparr>]"
    by (simp add: nm)
  have "import_initialize_block_converters ?split
     (\<lambda>data. (tl (data ! 1), map tl (drop 2 data)))
     (\<lambda>args. args) (\<lambda>block_converter. block_converter)
     [(''control'', ''Control'')] ?csv
   = Inr [\<lparr>object_class = Some ''Control'', rows = [[''C-1'']], raw_headers = [''Code''],
           offset = 0, class_name = ''control'', csv_lines = [5]\<rparr>]"
    using import_initialize_block_converters_spec
      [of ?split ?csv "\<lambda>data. (tl (data ! 1), map tl (drop 2 data))"
        "\<lambda>args. args" "\<lambda>block_converter. block_converter" "[(''control'', ''Control'')]", OF h]
    unfolding rhs .
  then show ?thesis by simp
qed

subsection \<open>The migration and the REST client\<close>

lemma upgrade_fresh:
  "s ''labels'' = None \<Longrightarrow> upgrade s = Inr (s(''labels'' \<mapsto> labels_table))"
  by (simp add: upgrade_def create_table_def create_index_def TABLE_NAME_def Column_def
      labels_table_def)

lemma upgrade_taken: "s ''labels'' = Some t \<Longrightarrow> upgrade s = Inl TableExists"
  by (simp add: upgrade_def create_table_def TABLE_NAME_def)

lemma downgrade_after:
  "s ''labels'' = None \<Longrightarrow> downgrade (s(''labels'' \<mapsto> t)) = Inr s"
  by (simp add: downgrade_def drop_table_def TABLE_NAME_def fun_upd_idem)

text \<open>
  C7. On a schema without a table \<open>labels\<close>, \<open>upgrade\<close> adds exactly that table, with
  the columns, keys and indexes of the specification, and leaves every other table as
  it was; \<open>downgrade\<close> then drops it and gives back the schema from before. Whenever
  \<open>upgrade\<close> succeeds, \<open>downgrade\<close> on its result returns the original schema.
\<close>

theorem upgrade_downgrade_roundtrip:
  "TABLE_NAME = ''labels''
   \<and> (s ''labels'' = None \<longrightarrow>
        upgrade s = Inr (s(''labels'' \<mapsto> labels_table))
        \<and> (\<forall>tname. tname \<noteq> ''labels'' \<longrightarrow> (s(''labels'' \<mapsto> labels_table)) tname = s tname)
        \<and> downgrade (s(''labels'' \<mapsto> labels_table)) = Inr s)
   \<and> (\<forall>s'. upgrade s = Inr s' \<longrightarrow> downgrade s' = Inr s)"
proof -
  have "downgrade s' = Inr s" if "upgrade s = Inr s'" for s'
  proof (cases "s ''labels''")
    case None
    with that show ?thesis
      using upgrade_fresh [of s] downgrade_after [of s labels_table] by simp
  next
    case (Some t)
    with that show ?thesis using upgrade_taken [of s t] by simp
  qed
  then show ?thesis
    by (simp add: TABLE_NAME_def upgrade_fresh downgrade_after)
qed

theorem upgrade_downgrade_roundtrip_witness:
  "(Map.empty :: schema) ''labels'' = None
   \<and> upgrade Map.empty = Inr [''labels'' \<mapsto> labels_table]
   \<and> downgrade [''labels'' \<mapsto> labels_table] = Inr Map.empty"
  using upgrade_downgrade_roundtrip [of Map.empty] by simp

text \<open>
  C6. Each of \<open>send_get\<close>, \<open>send_post\<close> and \<open>send_put\<close> joins the application URL
  with the given URL, asks the session pool for the session of the current user, calls
  the matching method of that session (with the JSON body for POST and PUT, and the
  headers for PUT) and returns what the session returns.
\<close>

theorem rest_client_spec:
  "user_session env w = get_session env (fst (current_user env w)) (snd (current_user env w))
   \<and> send_get env url w =
       session_get env (fst (user_session env w)) (urljoin env (app_url env) url)
         (snd (user_session env w))
   \<and> send_post env url json_body w =
       session_post env (fst (user_session env w)) (urljoin env (app_url env) url) json_body
         (snd (user_session env w))
   \<and> send_put env url json_body headers w =
       session_put env (fst (user_session env w)) (urljoin env (app_url env) url) json_body headers
         (snd (user_session env w))"
  by (simp add: user_session_def send_get_def send_post_def send_put_def Let_def
      split: prod.splits)

end
